theory Spec2Isabelle
  imports Complex_Main
begin

section \<open>Request bodies\<close>

text \<open>
  The body of \<^verbatim>\<open>POST /predict\<close> after JSON decoding. An object is the list of the items
  of the decoded dictionary (its keys are distinct); numbers are modelled as reals, so
  the rounding, overflow and the non-finite values of binary floating point are outside
  the model.
\<close>

datatype json =
    JNull
  | JBool bool
  | JNum real
  | JStr string
  | JArr "json list"
  | JObj "(string \<times> json) list"

section \<open>Field validators of the request models\<close>

text \<open>
  \<^verbatim>\<open>CarFeatures\<close> and \<^verbatim>\<open>InputData\<close> are pydantic models with the default configuration:
  every annotated field is required, a value is converted to the annotated type where
  pydantic's default (non-strict) mode has a conversion, keys that are no field of the
  model are ignored, and all errors of a body are collected, in field order.

  The conversions to \<^verbatim>\<open>float\<close> accept a number, a boolean and a string that spells a
  number. \<open>float_of_str\<close> reads the plain decimal spelling (sign, digits, fraction);
  exponents and the other spellings Python reads are not modelled.
\<close>

definition digit :: "char \<Rightarrow> nat option" where
  "digit c = (let n = (of_char c :: nat) in if 48 \<le> n \<and> n \<le> 57 then Some (n - 48) else None)"

definition nat_of_digits :: "string \<Rightarrow> nat option" where
  "nat_of_digits s =
     (if s = [] then None
      else map_option (foldl (\<lambda>a d. 10 * a + d) 0) (those (map digit s)))"

definition unsigned_of_str :: "string \<Rightarrow> real option" where
  "unsigned_of_str s =
     (let ip = takeWhile (\<lambda>c. c \<noteq> CHR ''.'') s;
          fp = dropWhile (\<lambda>c. c \<noteq> CHR ''.'') s
      in case fp of
           [] \<Rightarrow> map_option real (nat_of_digits ip)
         | _ # ds \<Rightarrow>
             (case (nat_of_digits ip, nat_of_digits ds) of
                (Some a, Some b) \<Rightarrow> Some (real a + real b / 10 ^ length ds)
              | _ \<Rightarrow> None))"

definition float_of_str :: "string \<Rightarrow> real option" where
  "float_of_str s =
     (case s of
        [] \<Rightarrow> None
      | c # r \<Rightarrow>
          if c = CHR ''-'' then map_option uminus (unsigned_of_str r)
          else if c = CHR ''+'' then unsigned_of_str r
          else unsigned_of_str s)"

fun float_validator :: "json \<Rightarrow> real option" where
  "float_validator (JNum x) = Some x"
| "float_validator (JBool b) = Some (if b then 1 else 0)"
| "float_validator (JStr s) = float_of_str s"
| "float_validator _ = None"

text \<open>
  A string field takes a JSON string as it is and, as in pydantic 2, nothing else. (The
  older major version also wrote a number out as a string; no statement below is about
  a number in a string field.)
\<close>

fun str_validator :: "json \<Rightarrow> string option" where
  "str_validator (JStr s) = Some s"
| "str_validator _ = None"

text \<open>
  A boolean field takes a JSON boolean, the numbers 0 and 1, and the strings of
  pydantic's two tables, compared in lower case.
\<close>

definition lower :: "char \<Rightarrow> char" where
  "lower c = (let n = (of_char c :: nat) in if 65 \<le> n \<and> n \<le> 90 then char_of (n + 32) else c)"

definition BOOL_TRUE :: "string list" where
  "BOOL_TRUE = [''1'', ''on'', ''t'', ''true'', ''y'', ''yes'']"

definition BOOL_FALSE :: "string list" where
  "BOOL_FALSE = [''0'', ''off'', ''f'', ''false'', ''n'', ''no'']"

fun bool_validator :: "json \<Rightarrow> bool option" where
  "bool_validator (JBool b) = Some b"
| "bool_validator (JNum x) = (if x = 1 then Some True else if x = 0 then Some False else None)"
| "bool_validator (JStr s) =
     (if map lower s \<in> set BOOL_TRUE then Some True
      else if map lower s \<in> set BOOL_FALSE then Some False
      else None)"
| "bool_validator _ = None"

section \<open>Validation errors\<close>

text \<open>
  An error names the place it was found at, as FastAPI reports it: the path from the
  body to the offending value, e.g. \<^verbatim>\<open>["body", "input", 0, "mileage"]\<close>.
\<close>

datatype loc = Key string | Index nat

datatype expected = float_type | string_type | bool_type | dict_type | list_type

datatype verror =
    MissingField "loc list"
  | TypeMismatch "loc list" expected

definition field ::
  "(json \<Rightarrow> 'a option) \<Rightarrow> expected \<Rightarrow> loc list \<Rightarrow> (string \<times> json) list \<Rightarrow> string
     \<Rightarrow> verror list + 'a" where
  "field v t path obj name =
     (case map_of obj name of
        None \<Rightarrow> Inl [MissingField (path @ [Key name])]
      | Some j \<Rightarrow>
          (case v j of
             None \<Rightarrow> Inl [TypeMismatch (path @ [Key name]) t]
           | Some x \<Rightarrow> Inr x))"

text \<open>
  \<open>both\<close> joins the validation of one more field to the fields before it: the value is
  built only when neither failed, and the errors of both are kept.
\<close>

fun both :: "'e list + ('a \<Rightarrow> 'b) \<Rightarrow> 'e list + 'a \<Rightarrow> 'e list + 'b" where
  "both (Inr f) (Inr x) = Inr (f x)"
| "both (Inr f) (Inl e) = Inl e"
| "both (Inl e) (Inr x) = Inl e"
| "both (Inl e) (Inl e') = Inl (e @ e')"

section \<open>The request models\<close>

record CarFeatures =
  mileage :: real
  engine_power :: real
  model_key :: string
  fuel :: string
  paint_color :: string
  car_type :: string
  private_parking_available :: bool
  has_gps :: bool
  has_air_conditioning :: bool
  automatic_car :: bool
  has_getaround_connect :: bool
  has_speed_regulator :: bool
  winter_tires :: bool

record InputData =
  input :: "CarFeatures list"

text \<open>The names of the fields of \<^verbatim>\<open>CarFeatures\<close>, in the order the class declares them.\<close>

definition float_fields :: "string list" where
  "float_fields = [''mileage'', ''engine_power'']"

definition str_fields :: "string list" where
  "str_fields = [''model_key'', ''fuel'', ''paint_color'', ''car_type'']"

definition bool_fields :: "string list" where
  "bool_fields =
     [''private_parking_available'', ''has_gps'', ''has_air_conditioning'', ''automatic_car'',
      ''has_getaround_connect'', ''has_speed_regulator'', ''winter_tires'']"

definition schema_fields :: "string list" where
  "schema_fields = float_fields @ str_fields @ bool_fields"

definition validate_car :: "loc list \<Rightarrow> json \<Rightarrow> verror list + CarFeatures" where
  "validate_car path j =
     (case j of
        JObj obj \<Rightarrow>
          both (both (both (both (both (both (both (both (both (both (both (both (both
            (Inr CarFeatures.make)
            (field float_validator float_type path obj ''mileage''))
            (field float_validator float_type path obj ''engine_power''))
            (field str_validator string_type path obj ''model_key''))
            (field str_validator string_type path obj ''fuel''))
            (field str_validator string_type path obj ''paint_color''))
            (field str_validator string_type path obj ''car_type''))
            (field bool_validator bool_type path obj ''private_parking_available''))
            (field bool_validator bool_type path obj ''has_gps''))
            (field bool_validator bool_type path obj ''has_air_conditioning''))
            (field bool_validator bool_type path obj ''automatic_car''))
            (field bool_validator bool_type path obj ''has_getaround_connect''))
            (field bool_validator bool_type path obj ''has_speed_regulator''))
            (field bool_validator bool_type path obj ''winter_tires'')
      | _ \<Rightarrow> Inl [TypeMismatch path dict_type])"

fun validate_list :: "nat \<Rightarrow> json list \<Rightarrow> verror list + CarFeatures list" where
  "validate_list i [] = Inr []"
| "validate_list i (j # js) =
     both (both (Inr (\<lambda>c cs. c # cs))
             (validate_car [Key ''body'', Key ''input'', Index i] j))
          (validate_list (Suc i) js)"

definition validate_body :: "json \<Rightarrow> verror list + InputData" where
  "validate_body body =
     (case body of
        JObj obj \<Rightarrow>
          (case map_of obj ''input'' of
             None \<Rightarrow> Inl [MissingField [Key ''body'', Key ''input'']]
           | Some (JArr items) \<Rightarrow>
               (case validate_list 0 items of
                  Inl errs \<Rightarrow> Inl errs
                | Inr cars \<Rightarrow> Inr \<lparr>input = cars\<rparr>)
           | Some _ \<Rightarrow> Inl [TypeMismatch [Key ''body'', Key ''input''] list_type])
      | _ \<Rightarrow> Inl [TypeMismatch [Key ''body''] dict_type])"

section \<open>The handler's batch\<close>

text \<open>
  \<^verbatim>\<open>item.dict()\<close> is the dictionary of the fields of a validated record, in declaration
  order. A cell of a data frame holds a float, a string or a boolean, or \<open>NaN\<close> where a
  row has no value for a column.
\<close>

datatype cell = Float real | Str string | Bool bool | NaN

definition dict :: "CarFeatures \<Rightarrow> (string \<times> cell) list" where
  "dict c =
     [(''mileage'', Float (mileage c)),
      (''engine_power'', Float (engine_power c)),
      (''model_key'', Str (model_key c)),
      (''fuel'', Str (fuel c)),
      (''paint_color'', Str (paint_color c)),
      (''car_type'', Str (car_type c)),
      (''private_parking_available'', Bool (private_parking_available c)),
      (''has_gps'', Bool (has_gps c)),
      (''has_air_conditioning'', Bool (has_air_conditioning c)),
      (''automatic_car'', Bool (automatic_car c)),
      (''has_getaround_connect'', Bool (has_getaround_connect c)),
      (''has_speed_regulator'', Bool (has_speed_regulator c)),
      (''winter_tires'', Bool (winter_tires c))]"

record DataFrame =
  columns :: "string list"
  rows :: "cell list list"

text \<open>
  \<^verbatim>\<open>pd.DataFrame(input_dicts)\<close>: the columns are the keys of the dictionaries in the order
  they are first met, and each dictionary is one row, in the order of the list. The
  empty list gives a frame without columns and without rows.
\<close>

definition add_keys :: "string list \<Rightarrow> string list \<Rightarrow> string list" where
  "add_keys seen ks = fold (\<lambda>k acc. if k \<in> set acc then acc else acc @ [k]) ks seen"

definition pd_DataFrame :: "(string \<times> cell) list list \<Rightarrow> DataFrame" where
  "pd_DataFrame dicts =
     (let cols = fold (\<lambda>d seen. add_keys seen (map fst d)) dicts []
      in \<lparr>columns = cols,
          rows = map (\<lambda>d. map (\<lambda>c. case map_of d c of None \<Rightarrow> NaN | Some v \<Rightarrow> v) cols) dicts\<rparr>)"

section \<open>The model artifact\<close>

text \<open>
  The artifact is the pipeline that the training script fits and saves: a column
  transformer (a standard scaler on the numeric features, a one-hot encoder with
  \<^verbatim>\<open>handle_unknown="ignore"\<close> on the categorical features, the remaining columns passed
  through) followed by a regressor. The fitted parameters are fields of the record: the
  columns of the training table, the mean and scale of each numeric feature, the
  vocabulary of each categorical feature, and the regressor, an opaque function of an
  encoded row.
\<close>

text \<open>
  The training table \<^verbatim>\<open>X\<close> is the pricing table read from the CSV file, without its index
  column and without the target; its columns keep the order of the file's header.
\<close>

definition TARGET :: string where
  "TARGET = ''rental_price_per_day''"

definition X_columns :: "string list \<Rightarrow> string list" where
  "X_columns header =
     filter (\<lambda>c. c \<noteq> TARGET) (filter (\<lambda>c. c \<noteq> ''Unnamed: 0'') header)"

definition numeric_features :: "string list" where
  "numeric_features = [''mileage'', ''engine_power'']"

definition categorical_features :: "string list" where
  "categorical_features = [''model_key'', ''fuel'', ''paint_color'', ''car_type'']"

record Pipeline =
  feature_names_in :: "string list"
  scaler_mean :: "string \<Rightarrow> real"
  scaler_scale :: "string \<Rightarrow> real"
  categories :: "string \<Rightarrow> string list"
  regressor :: "real list \<Rightarrow> real"

definition remainder :: "Pipeline \<Rightarrow> string list" where
  "remainder m =
     filter (\<lambda>c. c \<notin> set numeric_features \<and> c \<notin> set categorical_features)
       (feature_names_in m)"

datatype exn = ValueError

text \<open>A number is read from a float or a boolean cell; a string or a missing value raises.\<close>

fun to_float :: "cell \<Rightarrow> real option" where
  "to_float (Float x) = Some x"
| "to_float (Bool b) = Some (if b then 1 else 0)"
| "to_float (Str s) = None"
| "to_float NaN = None"

text \<open>
  One indicator for each category of the vocabulary; a value outside the vocabulary
  sets none of them.
\<close>

definition one_hot :: "string list \<Rightarrow> cell \<Rightarrow> real list" where
  "one_hot cats v = map (\<lambda>c. if v = Str c then 1 else 0) cats"

definition transform_row :: "Pipeline \<Rightarrow> (string \<rightharpoonup> cell) \<Rightarrow> real list option" where
  "transform_row m row =
     (case (those (map (\<lambda>f. Option.bind (row f) (\<lambda>v.
                     map_option (\<lambda>x. (x - scaler_mean m f) / scaler_scale m f) (to_float v)))
                   numeric_features),
            those (map (\<lambda>f. map_option (one_hot (categories m f)) (row f)) categorical_features),
            those (map (\<lambda>f. Option.bind (row f) to_float) (remainder m))) of
        (Some nums, Some cats, Some rest) \<Rightarrow> Some (nums @ concat cats @ rest)
      | _ \<Rightarrow> None)"

text \<open>
  \<^verbatim>\<open>model.predict(df)\<close>: the transformer takes its columns from the frame by name and
  raises when one is missing; the regressor scores each encoded row.
\<close>

definition Pipeline_predict :: "Pipeline \<Rightarrow> DataFrame \<Rightarrow> exn + real list" where
  "Pipeline_predict m df =
     (if \<not> set (numeric_features @ categorical_features @ remainder m) \<subseteq> set (columns df)
      then Inl ValueError
      else case those (map (\<lambda>r. transform_row m (map_of (zip (columns df) r))) (rows df)) of
             None \<Rightarrow> Inl ValueError
           | Some X \<Rightarrow> Inr (map (regressor m) X))"

section \<open>The service\<close>

text \<open>
  The state of the process is the module-level \<^verbatim>\<open>model\<close>, with a trace of the loads of
  the artifact and of the calls of its \<^verbatim>\<open>predict\<close>. A handler that raises is answered by
  the framework with status 500; a body that fails validation is answered with status
  422 and the handler is not called. The contents of the two static pages are left out.
\<close>

datatype event = JoblibLoad string | ModelPredict DataFrame

record server =
  model :: Pipeline
  trace :: "event list"

datatype request = GET_root | POST_predict json | GET_docs

datatype response =
    HTML_200
  | Docs_200
  | Prediction_200 "real list"
  | Unprocessable_422 "verror list"
  | Internal_500

definition startup :: "(string \<rightharpoonup> Pipeline) \<Rightarrow> server option" where
  "startup files =
     (case files ''model/model.joblib'' of
        None \<Rightarrow> None
      | Some m \<Rightarrow> Some \<lparr>model = m, trace = [JoblibLoad ''model/model.joblib'']\<rparr>)"

definition predict :: "Pipeline \<Rightarrow> InputData \<Rightarrow> (exn + real list) \<times> event list" where
  "predict mdl data =
     (let input_dicts = map dict (input data);
          df = pd_DataFrame input_dicts;
          predictions = Pipeline_predict mdl df
      in (predictions, [ModelPredict df]))"

fun handle :: "server \<Rightarrow> request \<Rightarrow> response \<times> server" where
  "handle s GET_root = (HTML_200, s)"
| "handle s GET_docs = (Docs_200, s)"
| "handle s (POST_predict body) =
     (case validate_body body of
        Inl errs \<Rightarrow> (Unprocessable_422 errs, s)
      | Inr data \<Rightarrow>
          (case predict (model s) data of
             (Inl e, evs) \<Rightarrow> (Internal_500, s\<lparr>trace := trace s @ evs\<rparr>)
           | (Inr ps, evs) \<Rightarrow> (Prediction_200 ps, s\<lparr>trace := trace s @ evs\<rparr>)))"

fun run :: "server \<Rightarrow> request list \<Rightarrow> response list \<times> server" where
  "run s [] = ([], s)"
| "run s (r # rs) =
     (case handle s r of
        (resp, s') \<Rightarrow> (case run s' rs of (resps, s'') \<Rightarrow> (resp # resps, s'')))"

section \<open>Auxiliary definitions\<close>

text \<open>
  The errors a validation result carries (none when it succeeded), and the row the
  transformer makes of a validated record.
\<close>

definition errors_of :: "'e list + 'a \<Rightarrow> 'e list" where
  "errors_of r = (case r of Inl es \<Rightarrow> es | Inr _ \<Rightarrow> [])"


text \<open>
  A body with the single key \<^verbatim>\<open>input\<close>; the test of a trace event for being a load of the
  artifact; and a record without the keys that are no field of \<^verbatim>\<open>CarFeatures\<close>.
\<close>

definition request_of :: "json list \<Rightarrow> json" where
  "request_of items = JObj [(''input'', JArr items)]"

fun is_load :: "event \<Rightarrow> bool" where
  "is_load (JoblibLoad path) = True"
| "is_load (ModelPredict df) = False"

fun drop_extras :: "json \<Rightarrow> json" where
  "drop_extras (JObj obj) = JObj (filter (\<lambda>(k, v). k \<in> set schema_fields) obj)"
| "drop_extras j = j"

text \<open>
  Concrete data for the examples: the record of the documentation page (with an ASCII
  model name), the same record after validation, a header of a pricing table that lists
  \<^verbatim>\<open>model_key\<close> first, an artifact fitted on that table, and the server after start-up.
\<close>

definition example_record :: "(string \<times> json) list" where
  "example_record =
     [(''mileage'', JNum 7), (''engine_power'', JNum (27 / 100)),
      (''model_key'', JStr ''Peugeot''), (''fuel'', JStr ''diesel''),
      (''paint_color'', JStr ''black''), (''car_type'', JStr ''sedan''),
      (''private_parking_available'', JBool True), (''has_gps'', JBool True),
      (''has_air_conditioning'', JBool False), (''automatic_car'', JBool False),
      (''has_getaround_connect'', JBool True), (''has_speed_regulator'', JBool False),
      (''winter_tires'', JBool True)]"

definition example_car :: CarFeatures where
  "example_car =
     \<lparr>mileage = 7, engine_power = 27 / 100, model_key = ''Peugeot'', fuel = ''diesel'',
      paint_color = ''black'', car_type = ''sedan'', private_parking_available = True,
      has_gps = True, has_air_conditioning = False, automatic_car = False,
      has_getaround_connect = True, has_speed_regulator = False, winter_tires = True\<rparr>"

definition example_header :: "string list" where
  "example_header =
     [''Unnamed: 0'', ''model_key'', ''mileage'', ''engine_power'', ''fuel'', ''paint_color'',
      ''car_type'', ''private_parking_available'', ''has_gps'', ''has_air_conditioning'',
      ''automatic_car'', ''has_getaround_connect'', ''has_speed_regulator'', ''winter_tires'',
      ''rental_price_per_day'']"

definition example_model :: Pipeline where
  "example_model =
     \<lparr>feature_names_in = X_columns example_header,
      scaler_mean = (\<lambda>f. if f = ''mileage'' then 5 else 0),
      scaler_scale = (\<lambda>f. if f = ''mileage'' then 2 else 1),
      categories = (\<lambda>f. if f = ''fuel'' then [''diesel'', ''petrol''] else [''Citroen'', ''Renault'']),
      regressor = (\<lambda>xs. 100 + sum_list xs)\<rparr>"

definition example_server :: server where
  "example_server = \<lparr>model = example_model, trace = [JoblibLoad ''model/model.joblib'']\<rparr>"

section \<open>Validation\<close>

lemma errors_of_simps [simp]: "errors_of (Inl es) = es" "errors_of (Inr x) = []"
  by (simp_all add: errors_of_def)


lemma errors_of_both: "errors_of (both r x) = errors_of r @ errors_of x"
  by (cases r; cases x) simp_all

lemma errors_of_mem: "e \<in> set (errors_of r) \<Longrightarrow> \<exists>es. r = Inl es \<and> e \<in> set es"
  by (cases r) auto


lemma field_missing: "map_of obj n = None \<Longrightarrow> field v t p obj n = Inl [MissingField (p @ [Key n])]"
  by (simp add: field_def)


lemma validate_car_missing_all:
  "\<forall>f\<in>set schema_fields. map_of obj f = None \<longrightarrow>
     MissingField (p @ [Key f]) \<in> set (errors_of (validate_car p (JObj obj)))"
  by (simp add: schema_fields_def float_fields_def str_fields_def bool_fields_def
        validate_car_def errors_of_both field_missing)

lemma validate_list_errors_nth:
  "k < length js \<Longrightarrow>
   set (errors_of (validate_car [Key ''body'', Key ''input'', Index (i + k)] (js ! k)))
     \<subseteq> set (errors_of (validate_list i js))"
proof (induction js arbitrary: i k)
  case Nil
  then show ?case by simp
next
  case (Cons j js)
  show ?case
  proof (cases k)
    case 0
    then show ?thesis by (simp add: errors_of_both)
  next
    case (Suc k')
    with Cons.prems have "k' < length js" by simp
    from Cons.IH [OF this, of "Suc i"] Suc show ?thesis
      by (auto simp: errors_of_both)
  qed
qed


lemma validate_body_input:
  "map_of b ''input'' = Some (JArr items) \<Longrightarrow>
   validate_body (JObj b) = (case validate_list 0 items of Inl errs \<Rightarrow> Inl errs | Inr cars \<Rightarrow> Inr \<lparr>input = cars\<rparr>)"
  by (simp add: validate_body_def)

lemma validate_example_record: "validate_car p (JObj example_record) = Inr example_car"
  by (simp add: validate_car_def field_def example_record_def example_car_def CarFeatures.defs)

text \<open>
  The validation of a record reads only the thirteen fields, so other keys change nothing.
\<close>

lemma map_of_filter_schema:
  "f \<in> set schema_fields \<Longrightarrow>
   map_of (filter (\<lambda>(k, v). k \<in> set schema_fields) obj) f = map_of obj f"
  by (induction obj) auto

lemma field_drop_extras:
  "f \<in> set schema_fields \<Longrightarrow>
   field v t p (filter (\<lambda>(k, v). k \<in> set schema_fields) obj) f = field v t p obj f"
  by (simp add: field_def map_of_filter_schema)

lemma schema_fields_mem:
  "''mileage'' \<in> set schema_fields" "''engine_power'' \<in> set schema_fields"
  "''model_key'' \<in> set schema_fields" "''fuel'' \<in> set schema_fields"
  "''paint_color'' \<in> set schema_fields" "''car_type'' \<in> set schema_fields"
  "''private_parking_available'' \<in> set schema_fields" "''has_gps'' \<in> set schema_fields"
  "''has_air_conditioning'' \<in> set schema_fields" "''automatic_car'' \<in> set schema_fields"
  "''has_getaround_connect'' \<in> set schema_fields" "''has_speed_regulator'' \<in> set schema_fields"
  "''winter_tires'' \<in> set schema_fields"
  by (simp_all add: schema_fields_def float_fields_def str_fields_def bool_fields_def)

lemma validate_car_drop_extras: "validate_car p (drop_extras j) = validate_car p j"
  by (cases j) (simp_all add: validate_car_def field_drop_extras schema_fields_mem)

lemma validate_list_drop_extras: "validate_list i (map drop_extras js) = validate_list i js"
  by (induction js arbitrary: i) (simp_all add: validate_car_drop_extras)

lemma validate_body_drop_extras:
  "validate_body (request_of (map drop_extras items)) = validate_body (request_of items)"
  by (simp add: request_of_def validate_body_def validate_list_drop_extras)






section \<open>The batch and the pipeline\<close>



















lemma Pipeline_predict_empty: "Pipeline_predict m (pd_DataFrame []) = Inl ValueError"
  by (simp add: Pipeline_predict_def pd_DataFrame_def numeric_features_def)



section \<open>The handler\<close>


lemma handle_invalid:
  "validate_body body = Inl errs \<Longrightarrow> handle s (POST_predict body) = (Unprocessable_422 errs, s)"
  by simp


lemma model_handle: "model (snd (handle s r)) = model s"
  by (cases r) (auto split: sum.splits prod.splits)

lemma snd_run_Cons: "snd (run s (r # rs)) = snd (run (snd (handle s r)) rs)"
  by (simp split: prod.splits)

lemma snd_run_append: "snd (run s (rs @ rs')) = snd (run (snd (run s rs)) rs')"
proof (induction rs arbitrary: s)
  case Nil
  show ?case by simp
next
  case (Cons r rs)
  have "snd (run s ((r # rs) @ rs')) = snd (run (snd (handle s r)) (rs @ rs'))"
    using snd_run_Cons [of s r "rs @ rs'"] by simp
  also have "\<dots> = snd (run (snd (run (snd (handle s r)) rs)) rs')"
    by (rule Cons.IH)
  finally show ?case by (simp only: snd_run_Cons)
qed

lemma model_run: "model (snd (run s rs)) = model s"
proof (induction rs arbitrary: s)
  case Nil
  show ?case by simp
next
  case (Cons r rs)
  show ?case by (simp only: snd_run_Cons Cons.IH model_handle)
qed

lemma response_handle: "model s = model s' \<Longrightarrow> fst (handle s r) = fst (handle s' r)"
  by (cases r) (auto split: sum.splits prod.splits)

lemma loads_handle: "filter is_load (trace (snd (handle s r))) = filter is_load (trace s)"
  by (cases r) (auto simp: predict_def Let_def split: sum.splits)

lemma loads_run: "filter is_load (trace (snd (run s rs))) = filter is_load (trace s)"
proof (induction rs arbitrary: s)
  case Nil
  show ?case by simp
next
  case (Cons r rs)
  show ?case by (simp only: snd_run_Cons Cons.IH loads_handle)
qed

section \<open>Properties of the service\<close>



text \<open>
  \<^bold>\<open>C2\<close>. For each of the thirteen fields: when a record of the request lacks the field,
  the request is answered with status 422, the errors name the missing field of that
  record, and the state of the service is as before, so the model was not called.
\<close>

theorem missing_field_rejected:
  assumes "f \<in> set schema_fields"
    and "map_of b ''input'' = Some (JArr items)"
    and "k < length items"
    and "items ! k = JObj obj"
    and "map_of obj f = None"
  shows "\<exists>errs. handle s (POST_predict (JObj b)) = (Unprocessable_422 errs, s) \<and>
           MissingField [Key ''body'', Key ''input'', Index k, Key f] \<in> set errs"
proof -
  let ?p = "[Key ''body'', Key ''input'', Index k]"
  have "MissingField (?p @ [Key f]) \<in> set (errors_of (validate_car ?p (JObj obj)))"
    by (rule validate_car_missing_all [rule_format, OF assms(1) assms(5)])
  then have "MissingField (?p @ [Key f]) \<in> set (errors_of (validate_car ?p (items ! k)))"
    by (simp only: assms(4))
  then have "MissingField (?p @ [Key f]) \<in> set (errors_of (validate_list 0 items))"
    using validate_list_errors_nth [OF assms(3), of 0] by (simp add: subset_iff)
  then have "\<exists>errs. validate_list 0 items = Inl errs \<and> MissingField (?p @ [Key f]) \<in> set errs"
    by (rule errors_of_mem)
  then show ?thesis
    by (elim exE conjE) (simp add: validate_body_input [OF assms(2)])
qed

theorem missing_field_rejected_witness:
  "\<exists>errs. handle example_server (POST_predict (request_of [JObj example_record, JObj (tl example_record)]))
             = (Unprocessable_422 errs, example_server) \<and>
          MissingField [Key ''body'', Key ''input'', Index 1, Key ''mileage''] \<in> set errs"
proof -
  have f: "''mileage'' \<in> set schema_fields"
    by (simp add: schema_fields_def float_fields_def)
  have i: "map_of [(''input'', JArr [JObj example_record, JObj (tl example_record)])] ''input''
      = Some (JArr [JObj example_record, JObj (tl example_record)])"
    by simp
  have k: "1 < length [JObj example_record, JObj (tl example_record)]" by simp
  have o: "[JObj example_record, JObj (tl example_record)] ! 1 = JObj (tl example_record)" by simp
  have m: "map_of (tl example_record) ''mileage'' = None"
    by (simp add: example_record_def)
  from missing_field_rejected [OF f i k o m, of example_server] show ?thesis
    by (simp add: request_of_def)
qed



text \<open>
  \<^bold>\<open>C4\<close>. The request with the empty list: validation accepts it, the frame built from
  no dictionary has no column, the transformer raises for its missing columns, and the
  answer is status 500, neither an empty prediction nor a client error.
\<close>

theorem empty_batch_fails:
  "fst (handle s (POST_predict (request_of []))) = Internal_500"
  by (simp add: request_of_def validate_body_def predict_def Pipeline_predict_empty)






text \<open>
  \<^bold>\<open>C7\<close>. A request sent again, after any other requests, is answered as it was the
  first time.
\<close>

theorem predict_deterministic:
  "fst (handle (snd (run s (r # rs))) r) = fst (handle s r)"
  by (rule response_handle) (rule model_run)

text \<open>
  \<^bold>\<open>C8\<close>. A request that fails validation is answered at once with status 422 and its
  errors, and leaves the state as it was; in any sequence of requests, the state after
  the sequence, with its trace of the calls of the model, is the one reached without
  that request.
\<close>

theorem invalid_never_scored:
  assumes "validate_body body = Inl errs"
  shows "handle s (POST_predict body) = (Unprocessable_422 errs, s) \<and>
         snd (run s (before @ POST_predict body # after)) = snd (run s (before @ after))"
proof
  show "handle s (POST_predict body) = (Unprocessable_422 errs, s)"
    by (rule handle_invalid [OF assms])
  have "snd (run s (before @ POST_predict body # after))
      = snd (run (snd (handle (snd (run s before)) (POST_predict body))) after)"
    by (simp only: snd_run_append snd_run_Cons)
  also have "\<dots> = snd (run (snd (run s before)) after)"
    by (simp only: handle_invalid [OF assms] snd_conv)
  also have "\<dots> = snd (run s (before @ after))"
    by (simp only: snd_run_append)
  finally show "snd (run s (before @ POST_predict body # after)) = snd (run s (before @ after))" .
qed

theorem invalid_never_scored_witness:
  "handle example_server (POST_predict (request_of [JNum 3]))
     = (Unprocessable_422 [TypeMismatch [Key ''body'', Key ''input'', Index 0] dict_type], example_server)"
proof -
  have "validate_body (request_of [JNum 3])
      = Inl [TypeMismatch [Key ''body'', Key ''input'', Index 0] dict_type]"
    by (simp add: request_of_def validate_body_def validate_car_def)
  from invalid_never_scored [OF this] show ?thesis by (rule conjunct1)
qed

text \<open>
  \<^bold>\<open>C9\<close>. After start-up the model of the service is the artifact of the file, and after
  any sequence of requests it still is; the trace holds one load of the artifact, the one
  of start-up.
\<close>

theorem artifact_loaded_once:
  assumes "startup files = Some s0"
  shows "files ''model/model.joblib'' = Some (model s0) \<and>
         model (snd (run s0 reqs)) = model s0 \<and>
         filter is_load (trace (snd (run s0 reqs))) = [JoblibLoad ''model/model.joblib'']"
proof -
  from assms have "files ''model/model.joblib'' = Some (model s0)"
    and "trace s0 = [JoblibLoad ''model/model.joblib'']"
    by (auto simp: startup_def split: option.splits)
  then show ?thesis
    by (simp add: model_run loads_run)
qed

theorem artifact_loaded_once_witness:
  "model (snd (run example_server [POST_predict (request_of [JObj example_record]), GET_root]))
     = example_model"
proof -
  have "startup [''model/model.joblib'' \<mapsto> example_model] = Some example_server"
    by (simp add: startup_def example_server_def)
  from artifact_loaded_once [OF this,
      of "[POST_predict (request_of [JObj example_record]), GET_root]"]
  have "model (snd (run example_server [POST_predict (request_of [JObj example_record]), GET_root]))
      = model example_server"
    by (elim conjE)
  moreover have "model example_server = example_model"
    by (simp add: example_server_def)
  ultimately show ?thesis by (rule trans)
qed

text \<open>
  \<^bold>\<open>C10\<close>. When the records of a request are valid once their extra keys are removed,
  the request validates to the same records, and it is answered as the request without
  the extra keys is.
\<close>

theorem extras_ignored:
  assumes "validate_body (request_of (map drop_extras items)) = Inr data"
  shows "validate_body (request_of items) = Inr data \<and>
         handle s (POST_predict (request_of items))
           = handle s (POST_predict (request_of (map drop_extras items)))"
  using assms by (simp add: validate_body_drop_extras)

theorem extras_ignored_witness:
  "validate_body (request_of [JObj (example_record @ [(''owner'', JStr ''Ann''), (''year'', JNum 2020)])])
     = Inr \<lparr>input = [example_car]\<rparr>"
proof -
  have "map drop_extras [JObj (example_record @ [(''owner'', JStr ''Ann''), (''year'', JNum 2020)])]
      = [JObj example_record]"
    by (simp add: example_record_def schema_fields_def float_fields_def str_fields_def bool_fields_def)
  moreover have "validate_body (request_of [JObj example_record]) = Inr \<lparr>input = [example_car]\<rparr>"
    by (simp add: request_of_def validate_body_def validate_example_record)
  ultimately have "validate_body (request_of (map drop_extras
      [JObj (example_record @ [(''owner'', JStr ''Ann''), (''year'', JNum 2020)])])) = Inr \<lparr>input = [example_car]\<rparr>"
    by simp
  from extras_ignored [OF this] show ?thesis by (rule conjunct1)
qed

end
